theory Spec2Isabelle
  imports Main "HOL-Library.Sublist"
begin

section \<open>Data model of the session manager\<close>

text \<open>
  The class \<^verbatim>\<open>ClientManager\<close> (src/ClientManager.js, with a second copy inside
  src/index.js and an older one in src/unnamed/part_000) keeps three JavaScript maps keyed
  by the session token: \<^verbatim>\<open>clients\<close>, \<^verbatim>\<open>qrCodes\<close> and \<^verbatim>\<open>statuses\<close>. Statuses are the
  string literals of the source. Everything the class does to its collaborators (the
  underlying client, the file system, the console, its own event emitter) is recorded in
  further fields of the state, so that every effect of an operation is visible in the
  state it returns.
\<close>

type_synonym token = string

text \<open>\<^verbatim>\<open>new Client({authStrategy: new LocalAuth({clientId: token, ...}), ...})\<close>\<close>

datatype client = Client token

text \<open>
  The four \<^verbatim>\<open>throw new Error(...)\<close> of the class, the error thrown by the constructor of
  \<^verbatim>\<open>LocalAuth\<close>, and a rejected \<^verbatim>\<open>sendMessage\<close>.
\<close>

datatype error =
    AlreadyExists
  | InvalidClientId
  | NotFound
  | NotAuthenticated
  | FetchFailed
  | DeliveryFailed string

fun error_message :: "error \<Rightarrow> string" where
  "error_message AlreadyExists = ''Client with this token already exists.''"
| "error_message InvalidClientId =
     ''Invalid clientId. Only alphanumeric characters, underscores and hyphens are allowed.''"
| "error_message NotFound = ''Client not found.''"
| "error_message NotAuthenticated = ''Client is not authenticated.''"
| "error_message FetchFailed = ''Failed to fetch image from URL.''"
| "error_message (DeliveryFailed detail) = detail"

text \<open>Events the underlying client delivers to the handlers registered on it.\<close>

datatype client_event =
    Qr string
  | Ready
  | AuthFailure string
  | Disconnected string
  | Message string string

text \<open>Events the manager re-emits to its own listeners (\<^verbatim>\<open>this.emit(...)\<close>).\<close>

datatype manager_event =
    EmitQr token string
  | EmitReady token
  | EmitAuthFailure token string
  | EmitDisconnected token string

text \<open>\<^verbatim>\<open>new MessageMedia(mimeType, base64, filename)\<close>\<close>

datatype media = MessageMedia string string string

text \<open>What is handed to \<^verbatim>\<open>client.sendMessage\<close>: a text, or a media object with a caption.\<close>

datatype payload = Text string | Media media string

text \<open>The console lines written by \<^verbatim>\<open>removeSession\<close>.\<close>

datatype console_entry =
    DestroyFailed token
  | AuthDirRemoved token
  | AuthDirRemoveFailed token

record manager =
  clients :: "token \<rightharpoonup> client"
  qrCodes :: "token \<rightharpoonup> string"
  statuses :: "token \<rightharpoonup> string"
  emitted :: "manager_event list"
  initialized :: "client list"
  destroyed :: "client list"
  sent :: "(client \<times> string \<times> payload) list"
  dirs :: "string set"
  console :: "console_entry list"

text \<open>
  \<^item> \<open>initialized\<close>: the clients whose \<^verbatim>\<open>initialize()\<close> was called (handshake started);
  \<^item> \<open>destroyed\<close>: the clients whose \<^verbatim>\<open>destroy()\<close> completed;
  \<^item> \<open>sent\<close>: the calls of \<^verbatim>\<open>client.sendMessage(chatId, payload)\<close>, oldest first;
  \<^item> \<open>dirs\<close>: the directories that exist on disk, by their path below the directory of
    the program.
\<close>

definition new_manager :: manager where
  "new_manager =
     \<lparr>clients = Map.empty, qrCodes = Map.empty, statuses = Map.empty, emitted = [],
      initialized = [], destroyed = [], sent = [], dirs = {}, console = []\<rparr>"

section \<open>ClientManager\<close>

subsection \<open>Handlers of the underlying client's events\<close>

text \<open>
  The handlers are closures over \<^verbatim>\<open>token\<close>; none of them reads the current status or
  checks that the client is still registered.
\<close>

definition on_qr :: "token \<Rightarrow> string \<Rightarrow> manager \<Rightarrow> manager" where
  "on_qr token qr m =
     m\<lparr>qrCodes := (qrCodes m)(token \<mapsto> qr),
       emitted := emitted m @ [EmitQr token qr]\<rparr>"

definition on_ready :: "token \<Rightarrow> manager \<Rightarrow> manager" where
  "on_ready token m =
     m\<lparr>statuses := (statuses m)(token \<mapsto> ''authenticated''),
       qrCodes := (qrCodes m)(token := None),
       emitted := emitted m @ [EmitReady token]\<rparr>"

definition on_auth_failure :: "token \<Rightarrow> string \<Rightarrow> manager \<Rightarrow> manager" where
  "on_auth_failure token msg m =
     m\<lparr>statuses := (statuses m)(token \<mapsto> ''auth_failure''),
       qrCodes := (qrCodes m)(token := None),
       emitted := emitted m @ [EmitAuthFailure token msg]\<rparr>"

definition on_disconnected :: "token \<Rightarrow> string \<Rightarrow> manager \<Rightarrow> manager" where
  "on_disconnected token reason m =
     m\<lparr>statuses := (statuses m)(token \<mapsto> ''logged_out''),
       emitted := emitted m @ [EmitDisconnected token reason]\<rparr>"

text \<open>The \<^verbatim>\<open>message\<close> handler only writes to the console.\<close>

fun dispatch :: "token \<Rightarrow> client_event \<Rightarrow> manager \<Rightarrow> manager" where
  "dispatch token (Qr qr) m = on_qr token qr m"
| "dispatch token Ready m = on_ready token m"
| "dispatch token (AuthFailure msg) m = on_auth_failure token msg m"
| "dispatch token (Disconnected reason) m = on_disconnected token reason m"
| "dispatch token (Message sender text) m = m"

text \<open>A batch of events, delivered in order.\<close>

fun deliver :: "(token \<times> client_event) list \<Rightarrow> manager \<Rightarrow> manager" where
  "deliver [] m = m"
| "deliver ((token, ev) # evs) m = deliver evs (dispatch token ev m)"

subsection \<open>The authentication strategy and the disk\<close>

text \<open>
  \<^verbatim>\<open>new LocalAuth({clientId: token, dataPath: path.resolve(__dirname, 'whatsapp_auth')})\<close>
  is code of the library whatsapp-web.js, not of this repository. Its constructor throws
  unless the client id is empty or matches \<^verbatim>\<open>/^[-_\w]+$/i\<close>, and when the client is
  initialized it creates, with \<^verbatim>\<open>fs.mkdirSync\<close>, the directory \<^verbatim>\<open>session-<clientId>\<close>
  (\<^verbatim>\<open>session\<close> for the empty id) below its data path, where the credentials are kept.
\<close>

definition isClientIdChar :: "char \<Rightarrow> bool" where
  "isClientIdChar c =
     (c \<in> set ''-_0123456789abcdefghijklmnopqrstuvwxyzABCDEFGHIJKLMNOPQRSTUVWXYZ'')"

definition validClientId :: "token \<Rightarrow> bool" where
  "validClientId token = (token = [] \<or> list_all isClientIdChar token)"

definition sessionDir :: "token \<Rightarrow> string" where
  "sessionDir token =
     (if token = [] then ''whatsapp_auth/session'' else ''whatsapp_auth/session-'' @ token)"

text \<open>
  \<^verbatim>\<open>const authDir = path.resolve(__dirname, 'whatsapp_auth', token);\<close> in \<open>removeSession\<close>
  (an empty segment is skipped; the path of a token that is a valid client id needs no
  further normalisation).
\<close>

definition authDir :: "token \<Rightarrow> string" where
  "authDir token = (if token = [] then ''whatsapp_auth'' else ''whatsapp_auth/'' @ token)"

text \<open>
  \<^verbatim>\<open>fs.rmSync(d, {recursive: true, force: true})\<close> when it succeeds: the directory and
  everything below it are gone.
\<close>

definition rmSync :: "string \<Rightarrow> string set \<Rightarrow> string set" where
  "rmSync d ds = Set.filter (\<lambda>p. p \<noteq> d \<and> \<not> prefix (d @ ''/'') p) ds"

subsection \<open>Creating a session\<close>

text \<open>
  src/ClientManager.js, lines 78 to 83: the states after each of the three statements
  \<^verbatim>\<open>client.initialize(); this.clients.set(token, client);
  this.statuses.set(token, 'initializing');\<close> in program order. \<^verbatim>\<open>client.initialize()\<close>
  starts the handshake and makes the session directory of the client.
\<close>

definition initializeClient_points :: "token \<Rightarrow> manager \<Rightarrow> manager list" where
  "initializeClient_points token m =
     (let client = Client token;
          m1 = m\<lparr>initialized := initialized m @ [client],
                 dirs := insert (sessionDir token) (dirs m)\<rparr>;
          m2 = m1\<lparr>clients := (clients m1)(token \<mapsto> client)\<rparr>;
          m3 = m2\<lparr>statuses := (statuses m2)(token \<mapsto> ''initializing'')\<rparr>
      in [m1, m2, m3])"

text \<open>
  src/ClientManager.js, lines 20 to 84. The test of \<^verbatim>\<open>clients.has(token)\<close> comes first;
  then the options of the client are built, where \<^verbatim>\<open>new LocalAuth\<close> may throw; nothing has
  been stored at either throw.
\<close>

definition initializeClient :: "token \<Rightarrow> manager \<Rightarrow> (error + unit) \<times> manager" where
  "initializeClient token m =
     (if clients m token \<noteq> None then (Inl AlreadyExists, m)
      else if \<not> validClientId token then (Inl InvalidClientId, m)
      else (Inr (), last (initializeClient_points token m)))"

text \<open>
  The copy of the class inside src/index.js, lines 389 to 394: \<^verbatim>\<open>this.clients.set(token,
  client); this.statuses.set(token, 'initializing'); client.initialize();\<close>
\<close>

definition initializeClient_variant_points :: "token \<Rightarrow> manager \<Rightarrow> manager list" where
  "initializeClient_variant_points token m =
     (let client = Client token;
          m1 = m\<lparr>clients := (clients m)(token \<mapsto> client)\<rparr>;
          m2 = m1\<lparr>statuses := (statuses m1)(token \<mapsto> ''initializing'')\<rparr>;
          m3 = m2\<lparr>initialized := initialized m2 @ [client],
                  dirs := insert (sessionDir token) (dirs m2)\<rparr>
      in [m1, m2, m3])"

definition initializeClient_variant :: "token \<Rightarrow> manager \<Rightarrow> (error + unit) \<times> manager" where
  "initializeClient_variant token m =
     (if clients m token \<noteq> None then (Inl AlreadyExists, m)
      else if \<not> validClientId token then (Inl InvalidClientId, m)
      else (Inr (), last (initializeClient_variant_points token m)))"

text \<open>
  A point \<open>p\<close> of a call that began in state \<open>m\<close> at which the call has started the
  handshake (\<^verbatim>\<open>client.initialize()\<close> has run) while \<^verbatim>\<open>clients.has(token)\<close> is still false
  or \<^verbatim>\<open>statuses.get(token)\<close> is still undefined.
\<close>

definition started_unregistered :: "token \<Rightarrow> manager \<Rightarrow> manager \<Rightarrow> bool" where
  "started_unregistered token m p =
     (initialized p \<noteq> initialized m \<and> (clients p token = None \<or> statuses p token = None))"

subsection \<open>Queries\<close>

text \<open>\<^verbatim>\<open>return this.qrCodes.get(token) || null;\<close> (the empty string is falsy)\<close>

definition getQRCode :: "manager \<Rightarrow> token \<Rightarrow> string option" where
  "getQRCode m token =
     (case qrCodes m token of
        None \<Rightarrow> None
      | Some qr \<Rightarrow> if qr = [] then None else Some qr)"

text \<open>\<^verbatim>\<open>return this.statuses.get(token) || 'unknown';\<close>\<close>

definition getStatus :: "manager \<Rightarrow> token \<Rightarrow> string" where
  "getStatus m token =
     (case statuses m token of
        None \<Rightarrow> ''unknown''
      | Some s \<Rightarrow> if s = [] then ''unknown'' else s)"



subsection \<open>Sending\<close>

text \<open>\<^verbatim>\<open>String.prototype.includes\<close>: the pattern occurs somewhere in the string.\<close>

fun str_includes :: "string \<Rightarrow> string \<Rightarrow> bool" where
  "str_includes [] pat = (pat = [])"
| "str_includes (c # cs) pat = (prefix pat (c # cs) \<or> str_includes cs pat)"

text \<open>\<^verbatim>\<open>const chatId = number.includes('@c.us') ? number : `${number}@c.us`;\<close>\<close>

definition chatId :: "string \<Rightarrow> string" where
  "chatId number = (if str_includes number ''@c.us'' then number else number @ ''@c.us'')"

text \<open>
  \<open>ack\<close> is the outcome of \<^verbatim>\<open>await client.sendMessage(...)\<close>: \<open>None\<close> when it resolves,
  \<open>Some detail\<close> when it rejects. The call is recorded in \<open>sent\<close> either way.
\<close>

definition sendText ::
  "token \<Rightarrow> string \<Rightarrow> string \<Rightarrow> string option \<Rightarrow> manager \<Rightarrow> (error + unit) \<times> manager" where
  "sendText token number message ack m =
     (case clients m token of
        None \<Rightarrow> (Inl NotFound, m)
      | Some client \<Rightarrow>
          if getStatus m token \<noteq> ''authenticated'' then (Inl NotAuthenticated, m)
          else
            let m' = m\<lparr>sent := sent m @ [(client, chatId number, Text message)]\<rparr>
            in (case ack of
                  None \<Rightarrow> (Inr (), m')
                | Some detail \<Rightarrow> (Inl (DeliveryFailed detail), m')))"

text \<open>
  \<open>fetched\<close> is the outcome of \<^verbatim>\<open>await this.fetchImageFromUrl(imageUrl)\<close> (an HTTP GET
  outside the class): \<open>None\<close> when it throws. \<open>caption\<close> defaults to the empty string.
\<close>

definition sendImage ::
  "token \<Rightarrow> string \<Rightarrow> media option \<Rightarrow> string option \<Rightarrow> string option \<Rightarrow> manager
     \<Rightarrow> (error + unit) \<times> manager" where
  "sendImage token number fetched caption ack m =
     (case clients m token of
        None \<Rightarrow> (Inl NotFound, m)
      | Some client \<Rightarrow>
          if getStatus m token \<noteq> ''authenticated'' then (Inl NotAuthenticated, m)
          else
            (case fetched of
               None \<Rightarrow> (Inl FetchFailed, m)
             | Some picture \<Rightarrow>
                 let cap = (case caption of None \<Rightarrow> [] | Some c \<Rightarrow> c);
                     m' = m\<lparr>sent := sent m @ [(client, chatId number, Media picture cap)]\<rparr>
                 in (case ack of
                       None \<Rightarrow> (Inr (), m')
                     | Some detail \<Rightarrow> (Inl (DeliveryFailed detail), m'))))"

subsection \<open>Removing a session\<close>

text \<open>
  src/ClientManager.js, lines 144 to 174. \<open>destroy_throws\<close> says whether
  \<^verbatim>\<open>await client.destroy()\<close> rejects, \<open>rm_throws\<close> whether \<^verbatim>\<open>fs.rmSync(authDir, ...)\<close>
  throws; both are caught and written to the console. A directory whose removal threw is
  still there. \<^verbatim>\<open>destroy()\<close> closes the browser of the client and leaves the disk alone.
\<close>

definition removeSession ::
  "token \<Rightarrow> bool \<Rightarrow> bool \<Rightarrow> manager \<Rightarrow> (error + unit) \<times> manager" where
  "removeSession token destroy_throws rm_throws m =
     (case clients m token of
        None \<Rightarrow> (Inl NotFound, m)
      | Some client \<Rightarrow>
          let m1 = (if destroy_throws
                    then m\<lparr>console := console m @ [DestroyFailed token]\<rparr>
                    else m\<lparr>destroyed := destroyed m @ [client]\<rparr>);
              m2 = m1\<lparr>clients := (clients m1)(token := None),
                      qrCodes := (qrCodes m1)(token := None),
                      statuses := (statuses m1)(token := None)\<rparr>;
              m3 = (if authDir token \<in> dirs m2
                    then (if rm_throws
                          then m2\<lparr>console := console m2 @ [AuthDirRemoveFailed token]\<rparr>
                          else m2\<lparr>dirs := rmSync (authDir token) (dirs m2),
                                  console := console m2 @ [AuthDirRemoved token]\<rparr>)
                    else m2)
          in (Inr (), m3))"

text \<open>
  The older class in src/unnamed/part_000, lines 117 to 134: \<^verbatim>\<open>await client.logout();
  client.destroy();\<close> and \<^verbatim>\<open>fs.rmdirSync(authDir, {recursive: true})\<close> stand outside any
  \<^verbatim>\<open>try\<close>, so a failure leaves the method at that statement. The error is the
  collaborator's own, carried here as \<open>DeliveryFailed\<close> with its text. A \<^verbatim>\<open>logout()\<close> that
  succeeds has the authentication strategy remove the session directory of the client.
\<close>

definition removeSession_part_000 ::
  "token \<Rightarrow> string option \<Rightarrow> string option \<Rightarrow> manager \<Rightarrow> (error + unit) \<times> manager" where
  "removeSession_part_000 token logout_error rmdir_error m =
     (case clients m token of
        None \<Rightarrow> (Inl NotFound, m)
      | Some client \<Rightarrow>
          (case logout_error of
             Some detail \<Rightarrow> (Inl (DeliveryFailed detail), m)
           | None \<Rightarrow>
               let m1 = m\<lparr>dirs := rmSync (sessionDir token) (dirs m),
                          destroyed := destroyed m @ [client]\<rparr>;
                   m2 = m1\<lparr>clients := (clients m1)(token := None),
                           qrCodes := (qrCodes m1)(token := None),
                           statuses := (statuses m1)(token := None)\<rparr>
               in if authDir token \<in> dirs m2
                  then (case rmdir_error of
                          Some detail \<Rightarrow> (Inl (DeliveryFailed detail), m2)
                        | None \<Rightarrow> (Inr (), m2\<lparr>dirs := rmSync (authDir token) (dirs m2)\<rparr>))
                  else (Inr (), m2)))"

section \<open>HTTP layer (src/index.js)\<close>

text \<open>
  A JSON response: the status code and the body. Request fields are strings, or absent
  (\<open>None\<close>); \<^verbatim>\<open>!field\<close> holds of an absent field and of the empty string.
\<close>

datatype body =
    Failure string
  | Succeeded string
  | Note string
  | QrCode string

datatype response = Response nat body

text \<open>The character classes \<^verbatim>\<open>\d\<close> and \<^verbatim>\<open>[1-9]\<close>.\<close>

definition isDigit :: "char \<Rightarrow> bool" where
  "isDigit c = (c \<in> set ''0123456789'')"

definition isNonZeroDigit :: "char \<Rightarrow> bool" where
  "isNonZeroDigit c = (c \<in> set ''123456789'')"

text \<open>\<^verbatim>\<open>/^\+?[1-9]\d{1,14}$/.test(number)\<close>\<close>

definition validatePhoneNumber :: "string \<Rightarrow> bool" where
  "validatePhoneNumber number =
     (let rest = (case number of
                    [] \<Rightarrow> number
                  | c # cs \<Rightarrow> if c = CHR ''+'' then cs else number)
      in case rest of
           [] \<Rightarrow> False
         | d # ds \<Rightarrow>
             isNonZeroDigit d \<and> 1 \<le> length ds \<and> length ds \<le> 14 \<and> list_all isDigit ds)"

text \<open>POST /send-text, src/index.js lines 164 to 194.\<close>

definition post_send_text ::
  "string option \<Rightarrow> string option \<Rightarrow> string option \<Rightarrow> string option \<Rightarrow> manager
     \<Rightarrow> response \<times> manager" where
  "post_send_text tokenF numberF messageF ack m =
     (case (tokenF, numberF, messageF) of
        (Some token, Some number, Some message) \<Rightarrow>
          if token = [] \<or> number = [] \<or> message = []
          then (Response 400 (Failure ''Token, number, and message are required.''), m)
          else if clients m token = None
          then (Response 404 (Failure ''Session not found.''), m)
          else if \<not> validatePhoneNumber number
          then (Response 400 (Failure ''Invalid recipient phone number format.''), m)
          else if getStatus m token = ''initializing''
          then (Response 503 (Failure
            ''Client is still initializing. Please wait until the QR code is scanned.''), m)
          else if getStatus m token \<noteq> ''authenticated''
          then (Response 400 (Failure ''Client is not authenticated.''), m)
          else (case sendText token number message ack m of
                  (Inr u, m') \<Rightarrow> (Response 200 (Succeeded ''Message sent successfully.''), m')
                | (Inl e, m') \<Rightarrow> (Response 500 (Failure (error_message e)), m'))
      | _ \<Rightarrow> (Response 400 (Failure ''Token, number, and message are required.''), m))"

text \<open>POST /send-image-url, src/index.js lines 201 to 231.\<close>

definition post_send_image_url ::
  "string option \<Rightarrow> string option \<Rightarrow> string option \<Rightarrow> string option \<Rightarrow> media option
     \<Rightarrow> string option \<Rightarrow> manager \<Rightarrow> response \<times> manager" where
  "post_send_image_url tokenF numberF imageUrlF caption fetched ack m =
     (case (tokenF, numberF, imageUrlF) of
        (Some token, Some number, Some imageUrl) \<Rightarrow>
          if token = [] \<or> number = [] \<or> imageUrl = []
          then (Response 400 (Failure ''Token, number, and imageUrl are required.''), m)
          else if clients m token = None
          then (Response 404 (Failure ''Session not found.''), m)
          else if \<not> validatePhoneNumber number
          then (Response 400 (Failure ''Invalid recipient phone number format.''), m)
          else if getStatus m token = ''initializing''
          then (Response 503 (Failure
            ''Client is still initializing. Please wait until the QR code is scanned.''), m)
          else if getStatus m token \<noteq> ''authenticated''
          then (Response 400 (Failure ''Client is not authenticated.''), m)
          else (case sendImage token number fetched caption ack m of
                  (Inr u, m') \<Rightarrow> (Response 200 (Succeeded ''Image sent successfully.''), m')
                | (Inl e, m') \<Rightarrow> (Response 500 (Failure (error_message e)), m'))
      | _ \<Rightarrow> (Response 400 (Failure ''Token, number, and imageUrl are required.''), m))"

subsection \<open>Waiting for the QR code\<close>

definition maxAttempts :: nat where
  "maxAttempts = 10"

text \<open>Milliseconds of one \<^verbatim>\<open>setTimeout\<close>.\<close>

definition delay :: nat where
  "delay = 1000"

text \<open>
  src/index.js, lines 146 to 150:
  \<^verbatim>\<open>while (!qr && attempts < maxAttempts) { await delay; qr = getQRCode(token); attempts++; }\<close>
  While the handler sleeps the underlying clients deliver events: \<open>env k\<close> is the batch
  that arrives during the sleep number \<open>k\<close>. The result is the last reading of the code,
  the number of sleeps and the state.
\<close>

function waitForQr ::
  "token \<Rightarrow> (nat \<Rightarrow> (token \<times> client_event) list) \<Rightarrow> string option \<Rightarrow> nat \<Rightarrow> manager
     \<Rightarrow> string option \<times> nat \<times> manager" where
  "waitForQr token env qr attempts m =
     (if qr = None \<and> attempts < maxAttempts
      then let m' = deliver (env attempts) m
           in waitForQr token env (getQRCode m' token) (Suc attempts) m'
      else (qr, attempts, m))"
  by pat_completeness auto
termination
  by (relation "measure (\<lambda>(token, env, qr, attempts, m). maxAttempts - attempts)") auto

text \<open>
  GET /qr/:token, src/index.js lines 114 to 157. The third component of the result is the
  time spent sleeping, in milliseconds.
\<close>

definition get_qr ::
  "token \<Rightarrow> bool \<Rightarrow> bool \<Rightarrow> (nat \<Rightarrow> (token \<times> client_event) list) \<Rightarrow> manager
     \<Rightarrow> response \<times> manager \<times> nat" where
  "get_qr token destroy_throws rm_throws env m =
     (if clients m token = None then (Response 404 (Note ''Session not found.''), m, 0)
      else if getStatus m token = ''authenticated''
      then (Response 400 (Note ''Already authenticated.''), m, 0)
      else
        let fresh =
          (if getStatus m token = ''logged_out'' \<or> getStatus m token = ''auth_failure''
           then (case removeSession token destroy_throws rm_throws m of
                   (Inl e, m1) \<Rightarrow> Inl m1
                 | (Inr u, m1) \<Rightarrow>
                     (case initializeClient token m1 of
                        (Inl e, m2) \<Rightarrow> Inl m2
                      | (Inr v, m2) \<Rightarrow> Inr m2))
           else Inr m)
        in case fresh of
             Inl m' \<Rightarrow> (Response 500 (Note ''Failed to reinitialize session.''), m', 0)
           | Inr m' \<Rightarrow>
               (case waitForQr token env (getQRCode m' token) 0 m' of
                  (Some qr, attempts, m'') \<Rightarrow> (Response 200 (QrCode qr), m'', attempts * delay)
                | (None, attempts, m'') \<Rightarrow>
                    (Response 500 (Note ''QR code not available yet. Please try again shortly.''),
                     m'', attempts * delay)))"

subsection \<open>Waiting for the pairing code\<close>



section \<open>Reachable states\<close>


section \<open>States used in the examples\<close>

text \<open>A registry whose session \<^verbatim>\<open>T2\<close> is authenticated.\<close>

definition authenticated_T2 :: manager where
  "authenticated_T2 = dispatch ''T2'' Ready (snd (initializeClient ''T2'' new_manager))"



text \<open>
  Scenario D of the specification: the session \<^verbatim>\<open>T3\<close> was authenticated and then logged
  out by the remote side; the client created for it anew signals its code during the third
  sleep of the handler.
\<close>

definition logged_out_T3 :: manager where
  "logged_out_T3 =
     deliver [(''T3'', Qr ''2@old''), (''T3'', Ready), (''T3'', Disconnected ''LOGOUT'')]
       (snd (initializeClient ''T3'' new_manager))"

definition code_on_third_sleep :: "nat \<Rightarrow> (token \<times> client_event) list" where
  "code_on_third_sleep k = (if k = 2 then [(''T3'', Qr ''2@new'')] else [])"

section \<open>Properties\<close>

subsection \<open>Creating a session\<close>



lemma initializeClient_fresh:
  "clients m token = None \<Longrightarrow> validClientId token \<Longrightarrow>
     initializeClient token m =
       (Inr (), m\<lparr>initialized := initialized m @ [Client token],
                 dirs := insert (sessionDir token) (dirs m),
                 clients := (clients m)(token \<mapsto> Client token),
                 statuses := (statuses m)(token \<mapsto> ''initializing'')\<rparr>)"
  by (simp add: initializeClient_def initializeClient_points_def Let_def)

lemma initializeClient_succeeds:
  "fst (initializeClient token m) = Inr () \<longleftrightarrow> clients m token = None \<and> validClientId token"
  by (auto simp: initializeClient_def)

lemma initializeClient_variant_result:
  "initializeClient_variant token m = initializeClient token m"
  by (simp add: initializeClient_def initializeClient_points_def
      initializeClient_variant_def initializeClient_variant_points_def Let_def)

text \<open>The tokens of the examples; the last one is a phone number with its plus sign.\<close>

lemma valid_T1: "validClientId ''T1''"
  by (simp add: validClientId_def isClientIdChar_def)

lemma valid_T2: "validClientId ''T2''"
  by (simp add: validClientId_def isClientIdChar_def)

lemma valid_15551234567: "validClientId ''15551234567''"
  by (simp add: validClientId_def isClientIdChar_def)


lemma created_T1:
  "snd (initializeClient ''T1'' new_manager) =
     new_manager\<lparr>initialized := [Client ''T1''],
                 dirs := {''whatsapp_auth/session-T1''},
                 clients := [''T1'' \<mapsto> Client ''T1''],
                 statuses := [''T1'' \<mapsto> ''initializing'']\<rparr>"
  using valid_T1 by (simp add: initializeClient_fresh new_manager_def sessionDir_def)




subsection \<open>Sending is gated on the status\<close>

lemma sendText_unknown:
  "clients m token = None \<Longrightarrow> sendText token number message ack m = (Inl NotFound, m)"
  by (simp add: sendText_def)

lemma sendImage_unknown:
  "clients m token = None \<Longrightarrow>
     sendImage token number fetched caption ack m = (Inl NotFound, m)"
  by (simp add: sendImage_def)

lemma sendText_not_authenticated:
  "clients m token \<noteq> None \<Longrightarrow> getStatus m token \<noteq> ''authenticated'' \<Longrightarrow>
     sendText token number message ack m = (Inl NotAuthenticated, m)"
  by (auto simp: sendText_def)

lemma sendImage_not_authenticated:
  "clients m token \<noteq> None \<Longrightarrow> getStatus m token \<noteq> ''authenticated'' \<Longrightarrow>
     sendImage token number fetched caption ack m = (Inl NotAuthenticated, m)"
  by (auto simp: sendImage_def)



lemma sendText_authenticated:
  "clients m token = Some c \<Longrightarrow> getStatus m token = ''authenticated'' \<Longrightarrow>
     sent (snd (sendText token number message ack m)) =
       sent m @ [(c, chatId number, Text message)]"
  by (simp add: sendText_def Let_def split: option.splits)

text \<open>
  C2. \<open>sendText\<close> and \<open>sendImage\<close> fail with \<open>NotFound\<close> for a token without a client, and
  with \<open>NotAuthenticated\<close> for a registered token whose status is anything but
  \<^verbatim>\<open>authenticated\<close>. In both cases the state is returned as it was, so \<open>sent\<close> has no new
  call of \<^verbatim>\<open>sendMessage\<close>, whatever the fetch and the delivery would have answered.
\<close>

theorem send_gated_on_authenticated:
  "(clients m token = None \<longrightarrow>
      sendText token number message ack m = (Inl NotFound, m) \<and>
      sendImage token number fetched caption ack m = (Inl NotFound, m)) \<and>
   (clients m token \<noteq> None \<and> getStatus m token \<noteq> ''authenticated'' \<longrightarrow>
      sendText token number message ack m = (Inl NotAuthenticated, m) \<and>
      sendImage token number fetched caption ack m = (Inl NotAuthenticated, m) \<and>
      sent (snd (sendText token number message ack m)) = sent m \<and>
      sent (snd (sendImage token number fetched caption ack m)) = sent m)"
proof (intro conjI impI)
  assume unknown: "clients m token = None"
  show "sendText token number message ack m = (Inl NotFound, m)"
    using unknown by (rule sendText_unknown)
  show "sendImage token number fetched caption ack m = (Inl NotFound, m)"
    using unknown by (rule sendImage_unknown)
next
  assume "clients m token \<noteq> None \<and> getStatus m token \<noteq> ''authenticated''"
  then have live: "clients m token \<noteq> None" and other: "getStatus m token \<noteq> ''authenticated''"
    by simp_all
  show text_refused: "sendText token number message ack m = (Inl NotAuthenticated, m)"
    using live other by (rule sendText_not_authenticated)
  show image_refused: "sendImage token number fetched caption ack m = (Inl NotAuthenticated, m)"
    using live other by (rule sendImage_not_authenticated)
  show "sent (snd (sendText token number message ack m)) = sent m"
    by (simp add: text_refused)
  show "sent (snd (sendImage token number fetched caption ack m)) = sent m"
    by (simp add: image_refused)
qed

theorem send_gated_on_authenticated_witness:
  "sendText ''T1'' ''15550001111'' ''hi'' None (snd (initializeClient ''T1'' new_manager)) =
     (Inl NotAuthenticated, snd (initializeClient ''T1'' new_manager)) \<and>
   sendImage ''T1'' ''15550001111'' (Some (MessageMedia ''image/png'' ''AAAA'' ''a.png'')) None
       None (snd (initializeClient ''T1'' new_manager)) =
     (Inl NotAuthenticated, snd (initializeClient ''T1'' new_manager)) \<and>
   sendText ''T2'' ''15550001111'' ''hi'' None (snd (initializeClient ''T1'' new_manager)) =
     (Inl NotFound, snd (initializeClient ''T1'' new_manager))"
proof -
  let ?m = "snd (initializeClient ''T1'' new_manager)"
  have live: "clients ?m ''T1'' \<noteq> None"
    by (simp add: created_T1)
  have status: "getStatus ?m ''T1'' \<noteq> ''authenticated''"
    by (simp add: created_T1 getStatus_def)
  have other: "clients ?m ''T2'' = None"
    unfolding created_T1 by (simp add: new_manager_def)
  show ?thesis
    using send_gated_on_authenticated [of ?m "''T1''" "''15550001111''" "''hi''" None
        "Some (MessageMedia ''image/png'' ''AAAA'' ''a.png'')" None]
      send_gated_on_authenticated [of ?m "''T2''" "''15550001111''" "''hi''" None None None]
      live status other
    by simp
qed

subsection \<open>Recipient normalisation\<close>

text \<open>\<open>str_includes\<close> is the substring test.\<close>

lemma str_includes_iff: "str_includes s pat \<longleftrightarrow> (\<exists>ps ss. s = ps @ pat @ ss)"
proof (induction s)
  case Nil
  then show ?case by auto
next
  case (Cons c cs)
  show ?case
  proof
    assume "str_includes (c # cs) pat"
    then consider "prefix pat (c # cs)" | "str_includes cs pat"
      by auto
    then show "\<exists>ps ss. c # cs = ps @ pat @ ss"
    proof cases
      case 1
      then obtain ss where "c # cs = [] @ pat @ ss"
        by (auto simp: prefix_def)
      then show ?thesis by blast
    next
      case 2
      with Cons.IH obtain ps ss where "cs = ps @ pat @ ss"
        by blast
      then have "c # cs = (c # ps) @ pat @ ss"
        by simp
      then show ?thesis by blast
    qed
  next
    assume "\<exists>ps ss. c # cs = ps @ pat @ ss"
    then obtain ps ss where eq: "c # cs = ps @ pat @ ss"
      by blast
    show "str_includes (c # cs) pat"
    proof (cases ps)
      case Nil
      with eq have "prefix pat (c # cs)"
        by (simp add: prefix_def)
      then show ?thesis by simp
    next
      case (Cons p ps')
      with eq have "cs = ps' @ pat @ ss"
        by simp
      with Cons.IH have "str_includes cs pat"
        by blast
      then show ?thesis by simp
    qed
  qed
qed

lemma str_includes_appended: "str_includes (x @ pat) pat"
  unfolding str_includes_iff by (rule exI [of _ x], rule exI [of _ "[]"]) simp

lemma str_includes_chars: "str_includes s pat \<Longrightarrow> set pat \<subseteq> set s"
  unfolding str_includes_iff by auto

text \<open>
  C8. \<open>chatId\<close> returns a recipient that contains \<^verbatim>\<open>@c.us\<close> as it is and appends
  \<^verbatim>\<open>@c.us\<close> to any other; applying it twice is the same as applying it once.
\<close>

theorem chatId_appends_suffix_once:
  "(str_includes x ''@c.us'' \<longrightarrow> chatId x = x) \<and>
   (\<not> str_includes x ''@c.us'' \<longrightarrow> chatId x = x @ ''@c.us'') \<and>
   chatId (chatId x) = chatId x"
proof (intro conjI impI)
  show "chatId x = x" if "str_includes x ''@c.us''"
    using that by (simp add: chatId_def)
  show "chatId x = x @ ''@c.us''" if "\<not> str_includes x ''@c.us''"
    using that by (simp add: chatId_def)
  show "chatId (chatId x) = chatId x"
  proof (cases "str_includes x ''@c.us''")
    case True
    then show ?thesis
      by (simp add: chatId_def)
  next
    case False
    then have "chatId x = x @ ''@c.us''"
      by (simp add: chatId_def)
    moreover have "str_includes (x @ ''@c.us'') ''@c.us''"
      by (rule str_includes_appended)
    ultimately show ?thesis
      by (simp add: chatId_def)
  qed
qed

theorem chatId_appends_suffix_once_witness:
  "chatId ''15550001111'' = ''15550001111@c.us'' \<and>
   chatId ''15550001111@c.us'' = ''15550001111@c.us'' \<and>
   chatId (chatId ''15550001111'') = chatId ''15550001111''"
proof -
  have bare: "\<not> str_includes ''15550001111'' ''@c.us''"
    by simp
  have suffixed: "str_includes ''15550001111@c.us'' ''@c.us''"
    by simp
  show ?thesis
    using chatId_appends_suffix_once [of "''15550001111''"]
      chatId_appends_suffix_once [of "''15550001111@c.us''"] bare suffixed
    by simp
qed

subsection \<open>The handlers and the stored code\<close>

lemma getQRCode_on_qr:
  "qr \<noteq> [] \<Longrightarrow> getQRCode (on_qr token qr m) token = Some qr"
  by (simp add: getQRCode_def on_qr_def)

lemma getStatus_on_qr: "getStatus (on_qr token qr m) t = getStatus m t"
  by (simp add: getStatus_def on_qr_def)

lemma getQRCode_on_ready: "getQRCode (on_ready token m) token = None"
  by (simp add: getQRCode_def on_ready_def)

lemma getStatus_on_ready: "getStatus (on_ready token m) token = ''authenticated''"
  by (simp add: getStatus_def on_ready_def)


lemma getStatus_on_auth_failure:
  "getStatus (on_auth_failure token msg m) token = ''auth_failure''"
  by (simp add: getStatus_def on_auth_failure_def)

lemma getStatus_on_disconnected:
  "getStatus (on_disconnected token reason m) token = ''logged_out''"
  by (simp add: getStatus_def on_disconnected_def)

text \<open>The \<^verbatim>\<open>disconnected\<close> handler leaves every stored code where it is.\<close>

lemma getQRCode_on_disconnected:
  "getQRCode (on_disconnected token reason m) t = getQRCode m t"
  by (simp add: getQRCode_def on_disconnected_def)

lemma getStatus_created:
  "fst (initializeClient token m) = Inr () \<Longrightarrow>
     getStatus (snd (initializeClient token m)) token = ''initializing''"
  by (simp add: initializeClient_succeeds initializeClient_fresh getStatus_def)

text \<open>
  C5, as the code has it. The class has no status for a session that waits for its code
  to be scanned: after a successful \<open>initializeClient\<close> the status is \<^verbatim>\<open>initializing\<close>; after
  the client signals a code, \<open>getQRCode\<close> returns that code, unless it is the empty string,
  which is reported as null, and the status is still \<^verbatim>\<open>initializing\<close>; after the client
  signals \<^verbatim>\<open>ready\<close>, \<open>getQRCode\<close> returns null and the status is \<^verbatim>\<open>authenticated\<close>.
\<close>

theorem create_code_ready_scenario:
  assumes "fst (initializeClient token m) = Inr ()" and "qr \<noteq> []"
  shows "getStatus (snd (initializeClient token m)) token = ''initializing'' \<and>
         getQRCode (dispatch token (Qr qr) (snd (initializeClient token m))) token = Some qr \<and>
         getStatus (dispatch token (Qr qr) (snd (initializeClient token m))) token
           = ''initializing'' \<and>
         getQRCode (dispatch token Ready (dispatch token (Qr qr) (snd (initializeClient token m))))
           token = None \<and>
         getStatus (dispatch token Ready (dispatch token (Qr qr) (snd (initializeClient token m))))
           token = ''authenticated''"
  using assms
  by (simp add: getStatus_created getQRCode_on_qr getStatus_on_qr getQRCode_on_ready
      getStatus_on_ready)

theorem create_code_ready_scenario_witness:
  "getStatus (snd (initializeClient ''15551234567'' new_manager)) ''15551234567''
     = ''initializing'' \<and>
   getQRCode (dispatch ''15551234567'' (Qr ''2@abc'')
       (snd (initializeClient ''15551234567'' new_manager))) ''15551234567'' = Some ''2@abc'' \<and>
   getStatus (dispatch ''15551234567'' Ready (dispatch ''15551234567'' (Qr ''2@abc'')
       (snd (initializeClient ''15551234567'' new_manager)))) ''15551234567''
     = ''authenticated''"
proof -
  have "clients new_manager ''15551234567'' = None"
    by (simp add: new_manager_def)
  with valid_15551234567 have created: "fst (initializeClient ''15551234567'' new_manager) = Inr ()"
    by (simp add: initializeClient_succeeds)
  have code: "''2@abc'' \<noteq> []"
    by simp
  show ?thesis
    using create_code_ready_scenario [OF created code] by simp
qed

text \<open>
  C5 as the specification states it fails: the session created for \<^verbatim>\<open>15551234567\<close> is
  still \<^verbatim>\<open>initializing\<close>, not in a state of its own, after its client signalled a code;
  and a client that signals the empty string as its code leaves \<open>getQRCode\<close> at null.
\<close>

theorem status_after_code_counterexample:
  "fst (initializeClient ''15551234567'' new_manager) = Inr () \<and>
   getStatus (dispatch ''15551234567'' (Qr ''2@abc'')
       (snd (initializeClient ''15551234567'' new_manager))) ''15551234567''
     = getStatus (snd (initializeClient ''15551234567'' new_manager)) ''15551234567'' \<and>
   getStatus (dispatch ''15551234567'' (Qr ''2@abc'')
       (snd (initializeClient ''15551234567'' new_manager))) ''15551234567''
     = ''initializing'' \<and>
   getQRCode (dispatch ''15551234567'' (Qr [])
       (snd (initializeClient ''15551234567'' new_manager))) ''15551234567'' = None"
proof -
  have "clients new_manager ''15551234567'' = None"
    by (simp add: new_manager_def)
  with valid_15551234567 have created: "fst (initializeClient ''15551234567'' new_manager) = Inr ()"
    by (simp add: initializeClient_succeeds)
  have "getQRCode (on_qr ''15551234567'' [] m) ''15551234567'' = None" for m
    by (simp add: getQRCode_def on_qr_def)
  with created show ?thesis
    by (simp add: getStatus_on_qr getStatus_created)
qed

text \<open>
  C3 at the events \<^verbatim>\<open>qr\<close>, \<^verbatim>\<open>disconnected\<close>: the \<^verbatim>\<open>ready\<close> and \<^verbatim>\<open>auth_failure\<close> handlers
  delete the stored code (\<open>getQRCode_on_ready\<close>, \<open>getQRCode_on_auth_failure\<close>), the
  \<^verbatim>\<open>disconnected\<close> handler does not: the session is \<^verbatim>\<open>logged_out\<close> and still has its code.
\<close>

theorem code_kept_when_logged_out:
  "getStatus (deliver [(''T1'', Qr ''2@abc''), (''T1'', Disconnected ''LOGOUT'')]
       (snd (initializeClient ''T1'' new_manager))) ''T1'' = ''logged_out'' \<and>
   getQRCode (deliver [(''T1'', Qr ''2@abc''), (''T1'', Disconnected ''LOGOUT'')]
       (snd (initializeClient ''T1'' new_manager))) ''T1'' = Some ''2@abc''"
  by (simp add: getStatus_on_disconnected getQRCode_on_disconnected getQRCode_on_qr)

subsection \<open>Order of the effects of \<open>initializeClient\<close>\<close>

text \<open>
  The copy of the class in src/index.js stores the client and the status first and starts
  the handshake last: no point of the call has the handshake started and the token
  unregistered.
\<close>

lemma variant_registers_first:
  "\<not> list_ex (started_unregistered token m) (initializeClient_variant_points token m)"
  by (simp add: initializeClient_variant_points_def started_unregistered_def Let_def)

text \<open>
  C7 at the token \<^verbatim>\<open>T1\<close> and the empty registry: src/ClientManager.js calls
  \<^verbatim>\<open>client.initialize()\<close> first, so at the first point of the call the handshake has
  started and neither \<^verbatim>\<open>clients\<close> nor \<^verbatim>\<open>statuses\<close> has the token.
\<close>

theorem handshake_started_before_registered:
  "list_ex (started_unregistered ''T1'' new_manager) (initializeClient_points ''T1'' new_manager) \<and>
   clients (hd (initializeClient_points ''T1'' new_manager)) ''T1'' = None \<and>
   getStatus (hd (initializeClient_points ''T1'' new_manager)) ''T1'' = ''unknown'' \<and>
   initialized (hd (initializeClient_points ''T1'' new_manager)) = [Client ''T1'']"
  by (simp add: initializeClient_points_def started_unregistered_def Let_def new_manager_def
      getStatus_def)

subsection \<open>Removing a session\<close>

lemma removeSession_unknown:
  "clients m token = None \<Longrightarrow>
     removeSession token destroy_throws rm_throws m = (Inl NotFound, m)"
  by (simp add: removeSession_def)

lemma removeSession_succeeds:
  "clients m token \<noteq> None \<Longrightarrow> fst (removeSession token destroy_throws rm_throws m) = Inr ()"
  by (auto simp: removeSession_def Let_def)

lemma removeSession_purges:
  "clients (snd (removeSession token destroy_throws rm_throws m)) token = None \<and>
   (clients m token \<noteq> None \<longrightarrow>
      qrCodes (snd (removeSession token destroy_throws rm_throws m)) token = None \<and>
      statuses (snd (removeSession token destroy_throws rm_throws m)) token = None)"
  by (auto simp: removeSession_def Let_def split: option.splits)


lemma removeSession_dirs:
  "clients m token \<noteq> None \<Longrightarrow>
     dirs (snd (removeSession token destroy_throws rm_throws m)) =
       (if authDir token \<in> dirs m \<and> \<not> rm_throws then rmSync (authDir token) (dirs m)
        else dirs m)"
  by (cases destroy_throws; cases rm_throws; cases "authDir token \<in> dirs m")
    (auto simp: removeSession_def Let_def)

lemma removeSession_console:
  "clients m token \<noteq> None \<Longrightarrow>
     console (snd (removeSession token destroy_throws rm_throws m)) =
       console m @ (if destroy_throws then [DestroyFailed token] else []) @
       (if authDir token \<in> dirs m
        then [if rm_throws then AuthDirRemoveFailed token else AuthDirRemoved token] else [])"
  by (cases destroy_throws; cases rm_throws; cases "authDir token \<in> dirs m")
    (auto simp: removeSession_def Let_def)

text \<open>
  The first removal of a registered session succeeds, whatever fails underneath, and
  deletes the three entries; the second finds no client and changes nothing.
\<close>

lemma removeSession_twice:
  assumes "clients m token \<noteq> None"
  shows "fst (removeSession token d1 r1 m) = Inr () \<and>
         clients (snd (removeSession token d1 r1 m)) token = None \<and>
         qrCodes (snd (removeSession token d1 r1 m)) token = None \<and>
         statuses (snd (removeSession token d1 r1 m)) token = None \<and>
         removeSession token d2 r2 (snd (removeSession token d1 r1 m)) =
           (Inl NotFound, snd (removeSession token d1 r1 m))"
proof -
  have "clients (snd (removeSession token d1 r1 m)) token = None"
    by (simp add: removeSession_purges)
  then have "removeSession token d2 r2 (snd (removeSession token d1 r1 m)) =
      (Inl NotFound, snd (removeSession token d1 r1 m))"
    by (rule removeSession_unknown)
  with assms show ?thesis
    by (simp add: removeSession_succeeds removeSession_purges)
qed

text \<open>
  The directory that \<open>removeSession\<close> looks for is not the one the credentials are in:
  whatever it removes, the session directory of the token stays.
\<close>

lemma isClientIdChar_not_slash: "isClientIdChar c \<Longrightarrow> c \<noteq> CHR ''/''"
  by (auto simp: isClientIdChar_def)

lemma validClientId_no_slash: "validClientId token \<Longrightarrow> CHR ''/'' \<notin> set token"
  using isClientIdChar_not_slash by (auto simp: validClientId_def list_all_iff)

lemma sessionDir_not_below_authDir:
  assumes "token \<noteq> []" and "CHR ''/'' \<notin> set token"
  shows "sessionDir token \<in> rmSync (authDir token) ds \<longleftrightarrow> sessionDir token \<in> ds"
proof -
  have "length (''session-'' @ token) \<noteq> length token"
    by simp
  then have different: "''session-'' @ token \<noteq> token"
    by metis
  have "\<not> prefix (token @ ''/'') (''session-'' @ token)"
  proof
    assume "prefix (token @ ''/'') (''session-'' @ token)"
    then have "set (token @ ''/'') \<subseteq> set (''session-'' @ token)"
      by (rule set_mono_prefix)
    then have "CHR ''/'' \<in> set (''session-'' @ token)"
      by simp
    with assms(2) show False
      by simp
  qed
  with different assms(1) show ?thesis
    by (simp add: rmSync_def sessionDir_def authDir_def)
qed

lemma credentials_survive_removal:
  assumes "validClientId token" and "token \<noteq> []" and "sessionDir token \<in> dirs m"
  shows "sessionDir token \<in> dirs (snd (removeSession token destroy_throws rm_throws m))"
proof (cases "clients m token")
  case None
  with assms(3) show ?thesis
    by (simp add: removeSession_unknown)
next
  case (Some client)
  from assms(1) have "CHR ''/'' \<notin> set token"
    by (rule validClientId_no_slash)
  with assms(2) have "sessionDir token \<in> rmSync (authDir token) (dirs m) \<longleftrightarrow>
      sessionDir token \<in> dirs m"
    by (rule sessionDir_not_below_authDir)
  with Some assms(3) show ?thesis
    by (simp add: removeSession_dirs)
qed

text \<open>
  In src/unnamed/part_000 a failing \<^verbatim>\<open>logout()\<close> leaves the method before anything is
  deleted: the error reaches the caller and the session stays registered. When nothing
  fails, the session directory is gone, removed by \<^verbatim>\<open>logout()\<close>.
\<close>

lemma removeSession_part_000_logout_fails:
  "clients m token \<noteq> None \<Longrightarrow>
     removeSession_part_000 token (Some detail) rmdir_error m = (Inl (DeliveryFailed detail), m)"
  by (auto simp: removeSession_part_000_def)

lemma removeSession_part_000_cleans:
  "clients m token \<noteq> None \<Longrightarrow>
     fst (removeSession_part_000 token None None m) = Inr () \<and>
     sessionDir token \<notin> dirs (snd (removeSession_part_000 token None None m))"
proof -
  assume "clients m token \<noteq> None"
  then obtain client where live: "clients m token = Some client"
    by blast
  have removed: "sessionDir token \<notin> rmSync (sessionDir token) (dirs m)"
    by (simp add: rmSync_def)
  then have "sessionDir token \<notin> rmSync (authDir token) (rmSync (sessionDir token) (dirs m))"
    by (simp add: rmSync_def)
  with removed live show ?thesis
    by (cases "authDir token \<in> rmSync (sessionDir token) (dirs m)")
      (simp_all add: removeSession_part_000_def Let_def)
qed

text \<open>
  C4 at the session \<^verbatim>\<open>T1\<close>, created in an empty manager and removed with nothing failing:
  \<open>removeSession\<close> succeeds and writes nothing to the console, and the credential
  directory \<^verbatim>\<open>whatsapp_auth/session-T1\<close> made for the session is still on disk, because
  the directory the method tests and removes is \<^verbatim>\<open>whatsapp_auth/T1\<close>.
\<close>

theorem credentials_remain_after_removal:
  "dirs (snd (initializeClient ''T1'' new_manager)) = {''whatsapp_auth/session-T1''} \<and>
   authDir ''T1'' = ''whatsapp_auth/T1'' \<and>
   fst (removeSession ''T1'' False False (snd (initializeClient ''T1'' new_manager))) = Inr () \<and>
   dirs (snd (removeSession ''T1'' False False (snd (initializeClient ''T1'' new_manager)))) =
     {''whatsapp_auth/session-T1''} \<and>
   console (snd (removeSession ''T1'' False False (snd (initializeClient ''T1'' new_manager)))) = []"
proof -
  let ?m = "snd (initializeClient ''T1'' new_manager)"
  have live: "clients ?m ''T1'' \<noteq> None"
    by (simp add: created_T1)
  have disk: "dirs ?m = {''whatsapp_auth/session-T1''}"
    by (simp add: created_T1)
  have path: "authDir ''T1'' = ''whatsapp_auth/T1''"
    by (simp add: authDir_def)
  have quiet_console: "console ?m = []"
    unfolding created_T1 by (simp add: new_manager_def)
  from disk path have absent: "authDir ''T1'' \<notin> dirs ?m"
    by simp
  from live absent disk have "dirs (snd (removeSession ''T1'' False False ?m)) =
      {''whatsapp_auth/session-T1''}"
    by (simp add: removeSession_dirs)
  moreover from live absent quiet_console
  have "console (snd (removeSession ''T1'' False False ?m)) = []"
    by (simp add: removeSession_console)
  moreover from live have "fst (removeSession ''T1'' False False ?m) = Inr ()"
    by (rule removeSession_succeeds)
  ultimately show ?thesis
    using disk path by simp
qed

subsection \<open>Queries for a token without a session\<close>












subsection \<open>Validation of the recipient at the HTTP layer\<close>

lemma isDigit_not_at: "isDigit c \<Longrightarrow> c \<noteq> CHR ''@''"
  by (auto simp: isDigit_def)

lemma isNonZeroDigit_not_at: "isNonZeroDigit c \<Longrightarrow> c \<noteq> CHR ''@''"
  by (auto simp: isNonZeroDigit_def)

lemma validatePhoneNumber_shape:
  assumes "validatePhoneNumber s"
  obtains d ds where "s = d # ds \<or> s = CHR ''+'' # d # ds"
    and "isNonZeroDigit d" and "list_all isDigit ds"
    and "1 \<le> length ds" and "length ds \<le> 14"
proof (cases s)
  case Nil
  with assms show ?thesis
    by (simp add: validatePhoneNumber_def)
next
  case (Cons c cs)
  show ?thesis
  proof (cases "c = CHR ''+''")
    case False
    with Cons assms have "isNonZeroDigit c" and "list_all isDigit cs"
      and "1 \<le> length cs" and "length cs \<le> 14"
      by (simp_all add: validatePhoneNumber_def)
    with Cons that show ?thesis
      by blast
  next
    case True
    show ?thesis
    proof (cases cs)
      case Nil
      with Cons True assms show ?thesis
        by (simp add: validatePhoneNumber_def)
    next
      case (Cons d ds)
      with \<open>s = c # cs\<close> True assms have "isNonZeroDigit d" and "list_all isDigit ds"
        and "1 \<le> length ds" and "length ds \<le> 14"
        by (simp_all add: validatePhoneNumber_def)
      with Cons \<open>s = c # cs\<close> True that show ?thesis
        by blast
    qed
  qed
qed

lemma validatePhoneNumber_no_at:
  assumes "validatePhoneNumber s"
  shows "CHR ''@'' \<notin> set s"
proof -
  from assms obtain d ds where shape: "s = d # ds \<or> s = CHR ''+'' # d # ds"
    and lead: "isNonZeroDigit d" and digits: "list_all isDigit ds"
    by (rule validatePhoneNumber_shape)
  from lead have "d \<noteq> CHR ''@''"
    by (rule isNonZeroDigit_not_at)
  moreover from digits have "CHR ''@'' \<notin> set ds"
    using isDigit_not_at by (auto simp: list_all_iff)
  ultimately show ?thesis
    using shape by auto
qed

lemma suffixed_number_invalid:
  assumes "str_includes number ''@c.us''"
  shows "\<not> validatePhoneNumber number"
proof
  assume valid: "validatePhoneNumber number"
  from assms have "set ''@c.us'' \<subseteq> set number"
    by (rule str_includes_chars)
  then have "CHR ''@'' \<in> set number"
    by simp
  with valid validatePhoneNumber_no_at show False
    by blast
qed

lemma str_includes_nonempty: "str_includes number ''@c.us'' \<Longrightarrow> number \<noteq> []"
  by auto

text \<open>Every answer of the two handlers other than 200 and 500 leaves the state alone.\<close>

lemma post_send_text_suffixed:
  assumes "str_includes number ''@c.us''"
  shows "snd (post_send_text tokenF (Some number) messageF ack m) = m \<and>
         fst (post_send_text tokenF (Some number) messageF ack m) \<in>
           {Response 400 (Failure ''Token, number, and message are required.''),
            Response 404 (Failure ''Session not found.''),
            Response 400 (Failure ''Invalid recipient phone number format.'')}"
  using suffixed_number_invalid [OF assms]
  by (simp add: post_send_text_def split: option.splits)

lemma post_send_image_url_suffixed:
  assumes "str_includes number ''@c.us''"
  shows "snd (post_send_image_url tokenF (Some number) imageUrlF caption fetched ack m) = m \<and>
         fst (post_send_image_url tokenF (Some number) imageUrlF caption fetched ack m) \<in>
           {Response 400 (Failure ''Token, number, and imageUrl are required.''),
            Response 404 (Failure ''Session not found.''),
            Response 400 (Failure ''Invalid recipient phone number format.'')}"
  using suffixed_number_invalid [OF assms]
  by (simp add: post_send_image_url_def split: option.splits)

text \<open>
  C9, as the code has it. A request to POST /send-text or POST /send-image-url whose
  number contains \<^verbatim>\<open>@c.us\<close> is always rejected before anything is sent (the state, and with
  it \<open>sent\<close>, is unchanged). The rejection is the one of the E.164 validation, status 400
  and \<^verbatim>\<open>Invalid recipient phone number format.\<close>, when the request passes the two earlier
  checks: its required fields are non-empty and its token has a session.
\<close>

theorem suffixed_recipient_rejected:
  assumes "str_includes number ''@c.us''"
  shows "snd (post_send_text tokenF (Some number) messageF ack m) = m \<and>
         snd (post_send_image_url tokenF (Some number) imageUrlF caption fetched ack m) = m \<and>
         fst (post_send_text tokenF (Some number) messageF ack m) \<noteq>
           Response 200 (Succeeded ''Message sent successfully.'') \<and>
         fst (post_send_image_url tokenF (Some number) imageUrlF caption fetched ack m) \<noteq>
           Response 200 (Succeeded ''Image sent successfully.'') \<and>
         (token \<noteq> [] \<and> message \<noteq> [] \<and> clients m token \<noteq> None \<longrightarrow>
            fst (post_send_text (Some token) (Some number) (Some message) ack m) =
              Response 400 (Failure ''Invalid recipient phone number format.'')) \<and>
         (token \<noteq> [] \<and> imageUrl \<noteq> [] \<and> clients m token \<noteq> None \<longrightarrow>
            fst (post_send_image_url (Some token) (Some number) (Some imageUrl) caption fetched
                   ack m) =
              Response 400 (Failure ''Invalid recipient phone number format.''))"
proof -
  have invalid: "\<not> validatePhoneNumber number"
    using assms by (rule suffixed_number_invalid)
  have nonempty: "number \<noteq> []"
    using assms by (rule str_includes_nonempty)
  have text_state: "snd (post_send_text tokenF (Some number) messageF ack m) = m"
    and text_answer: "fst (post_send_text tokenF (Some number) messageF ack m) \<noteq>
      Response 200 (Succeeded ''Message sent successfully.'')"
    using post_send_text_suffixed [OF assms, of tokenF messageF ack m] by auto
  have image_state:
    "snd (post_send_image_url tokenF (Some number) imageUrlF caption fetched ack m) = m"
    and image_answer:
    "fst (post_send_image_url tokenF (Some number) imageUrlF caption fetched ack m) \<noteq>
      Response 200 (Succeeded ''Image sent successfully.'')"
    using post_send_image_url_suffixed [OF assms, of tokenF imageUrlF caption fetched ack m]
    by auto
  have text_format: "token \<noteq> [] \<and> message \<noteq> [] \<and> clients m token \<noteq> None \<longrightarrow>
      fst (post_send_text (Some token) (Some number) (Some message) ack m) =
        Response 400 (Failure ''Invalid recipient phone number format.'')"
    using invalid nonempty by (simp add: post_send_text_def)
  have image_format: "token \<noteq> [] \<and> imageUrl \<noteq> [] \<and> clients m token \<noteq> None \<longrightarrow>
      fst (post_send_image_url (Some token) (Some number) (Some imageUrl) caption fetched ack m) =
        Response 400 (Failure ''Invalid recipient phone number format.'')"
    using invalid nonempty by (simp add: post_send_image_url_def)
  show ?thesis
    using text_state image_state text_answer image_answer text_format image_format
    by blast
qed

theorem suffixed_recipient_rejected_witness:
  "post_send_text (Some ''T2'') (Some ''15550001111@c.us'') (Some ''hi'') None authenticated_T2 =
     (Response 400 (Failure ''Invalid recipient phone number format.''), authenticated_T2) \<and>
   post_send_image_url (Some ''T2'') (Some ''15550001111@c.us'') (Some ''http://x/a.png'') None
       (Some (MessageMedia ''image/png'' ''AAAA'' ''a.png'')) None authenticated_T2 =
     (Response 400 (Failure ''Invalid recipient phone number format.''), authenticated_T2)"
proof -
  have suffixed: "str_includes ''15550001111@c.us'' ''@c.us''"
    by simp
  have live: "clients authenticated_T2 ''T2'' \<noteq> None"
    using valid_T2
    by (simp add: authenticated_T2_def initializeClient_fresh new_manager_def on_ready_def)
  show ?thesis
    using suffixed_recipient_rejected [OF suffixed, of "Some ''T2''" "Some ''hi''" None
        authenticated_T2 "Some ''http://x/a.png''" None
        "Some (MessageMedia ''image/png'' ''AAAA'' ''a.png'')" "''T2''" "''hi''"
        "''http://x/a.png''"] live
    by (simp add: prod_eq_iff)
qed

text \<open>
  C9 as stated fails: a request with a suffixed number whose token has no
  session is answered 404, \<^verbatim>\<open>Session not found.\<close>, by the check that precedes the
  validation of the number.
\<close>

theorem unknown_session_first_counterexample:
  "post_send_text (Some ''T9'') (Some ''15550001111@c.us'') (Some ''hi'') None authenticated_T2 =
     (Response 404 (Failure ''Session not found.''), authenticated_T2)"
proof -
  have "clients authenticated_T2 ''T9'' = None"
    using valid_T2
    by (simp add: authenticated_T2_def initializeClient_fresh new_manager_def on_ready_def)
  then show ?thesis
    by (simp add: post_send_text_def)
qed

text \<open>
  A bare number of an authenticated session does reach \<^verbatim>\<open>sendMessage\<close>, with the suffix
  appended (scenario C of the specification).
\<close>

lemma bare_number_sent:
  "post_send_text (Some ''T2'') (Some ''15550001111'') (Some ''hi'') None authenticated_T2 =
     (Response 200 (Succeeded ''Message sent successfully.''),
      authenticated_T2\<lparr>sent := [(Client ''T2'', ''15550001111@c.us'', Text ''hi'')]\<rparr>)"
proof -
  have valid: "validatePhoneNumber ''15550001111''"
    by (simp add: validatePhoneNumber_def isDigit_def isNonZeroDigit_def)
  have state: "authenticated_T2 =
      new_manager\<lparr>initialized := [Client ''T2''], dirs := {''whatsapp_auth/session-T2''},
        clients := [''T2'' \<mapsto> Client ''T2''],
        statuses := [''T2'' \<mapsto> ''authenticated''], qrCodes := Map.empty,
        emitted := [EmitReady ''T2'']\<rparr>"
    using valid_T2
    by (simp add: authenticated_T2_def initializeClient_fresh new_manager_def on_ready_def
        sessionDir_def)
  show ?thesis
    unfolding state using valid
    by (simp add: post_send_text_def sendText_def getStatus_def chatId_def new_manager_def Let_def)
qed

subsection \<open>Waiting for a code\<close>

declare waitForQr.simps [simp del]


lemma waitForQr_stop:
  "\<not> (qr = None \<and> attempts < maxAttempts) \<Longrightarrow>
     waitForQr token env qr attempts m = (qr, attempts, m)"
  by (subst waitForQr.simps) auto






text \<open>When a code is stored at the first reading, the loop does not sleep at all.\<close>

lemma waitForQr_code_there: "waitForQr token env (Some qr) attempts m = (Some qr, attempts, m)"
  by (simp add: waitForQr_stop)







text \<open>
  Scenario D of the specification, run on the model: the logged-out session is removed and
  created again, and the code that arrives during the third sleep is returned after three
  seconds.
\<close>

lemma fresh_code_returned:
  "fst (get_qr ''T3'' False False code_on_third_sleep logged_out_T3) =
     Response 200 (QrCode ''2@new'') \<and>
   snd (snd (get_qr ''T3'' False False code_on_third_sleep logged_out_T3)) = 3000"
  by code_simp




end
